theory Spec2Isabelle
  imports Main
begin

section \<open>JavaScript string and array primitives used by the registry\<close>

text \<open>
  Strings are \<^typ>\<open>string\<close>. The registry only ever inspects the separator \<open>.\<close> and the
  letter case of a name, so the primitives below are the one-character-separator forms of
  \<open>String.prototype.split\<close>, \<open>Array.prototype.join\<close> and the ASCII part of
  \<open>String.prototype.toLowerCase\<close>.
\<close>

text \<open>
  \<open>s.split(sep)\<close> for a one-character separator. The result is never empty (the empty
  string splits into one empty part), so the \<open>[]\<close> branch below is never taken.
\<close>

fun js_split :: "char \<Rightarrow> string \<Rightarrow> string list" where
  "js_split sep [] = [[]]"
| "js_split sep (c # cs) =
     (if c = sep then [] # js_split sep cs
      else (case js_split sep cs of [] \<Rightarrow> [[c]] | p # ps \<Rightarrow> (c # p) # ps))"

text \<open>\<open>parts.join(sep)\<close>: the empty array joins to the empty string.\<close>

fun js_join :: "char \<Rightarrow> string list \<Rightarrow> string" where
  "js_join sep [] = []"
| "js_join sep [p] = p"
| "js_join sep (p # q # ps) = p @ sep # js_join sep (q # ps)"

text \<open>
  \<open>toLowerCase\<close> on ASCII: each of \<open>A\<close>..\<open>Z\<close> moves to its lower-case letter, every other
  character stays.
\<close>

definition lower_char :: "char \<Rightarrow> char" where
  "lower_char c =
     (case map_of (zip ''ABCDEFGHIJKLMNOPQRSTUVWXYZ'' ''abcdefghijklmnopqrstuvwxyz'') c of
        None \<Rightarrow> c
      | Some l \<Rightarrow> l)"

definition toLowerCase :: "string \<Rightarrow> string" where
  "toLowerCase s = map lower_char s"

section \<open>The document registry: file types\<close>

text \<open>
  \<open>DocumentRegistry.IFileType\<close> (registry.ts, 1195-1246). The icon object is left out; a missing
  optional field (\<open>undefined\<close>) is \<open>None\<close>.
\<close>

record IFileType =
  ft_name :: string
  mimeTypes :: "string list"
  extensions :: "string list"
  displayName :: "string option"
  pattern :: "string option"
  iconClass :: "string option"
  iconLabel :: "string option"
  contentType :: string
  fileFormat :: string





section \<open>The document registry: state\<close>

text \<open>
  \<open>DocumentRegistry.IWidgetFactoryOptions\<close> as far as the registry reads it (registry.ts,
  1008-1065); the fields the registry only stores are optional values.
\<close>

record WidgetFactory =
  wf_name :: string
  wf_fileTypes :: "string list"
  defaultFor :: "string list option"
  defaultRendered :: "string list option"
  readOnly :: "bool option"
  modelName :: "string option"
  preferKernel :: "bool option"
  canStartKernel :: "bool option"
  shutdownOnClose :: "bool option"

record ModelFactory =
  mf_name :: string
  mf_contentType :: string
  mf_fileFormat :: string

text \<open>\<open>DocumentRegistry.IChangedArgs\<close> (registry.ts, 1251-1270).\<close>

datatype ChangedType = type_widgetFactory | type_modelFactory | type_widgetExtension | type_fileType

datatype Change = change_added | change_removed

record IChangedArgs =
  ca_type :: ChangedType
  ca_name :: "string option"
  ca_change :: Change

text \<open>
  The private fields of the class (registry.ts, 686-711). Every table is created with
  \<open>Object.create(null)\<close>, so it has no inherited keys and is a map from its own keys. The
  \<open>changed\<close> signal is the list of the arguments it has emitted, oldest first; a widget
  extension is known by a number.
\<close>

record DocumentRegistry =
  modelFactories :: "string \<rightharpoonup> ModelFactory"
  widgetFactories :: "string \<rightharpoonup> WidgetFactory"
  defaultWidgetFactory :: string
  defaultWidgetFactoryOverrides :: "string \<rightharpoonup> string"
  defaultWidgetFactories :: "string \<rightharpoonup> string"
  defaultRenderedWidgetFactories :: "string \<rightharpoonup> string"
  widgetFactoriesForFileType :: "string \<rightharpoonup> string list"
  fileTypes :: "IFileType list"
  extenders :: "string \<rightharpoonup> nat list"
  changed :: "IChangedArgs list"
  isDisposed :: bool

section \<open>getFileTypesForPath\<close>







subsection \<open>The order the result is documented to have\<close>

text \<open>The non-empty tails of a list, longest first.\<close>

fun tails :: "'a list \<Rightarrow> 'a list list" where
  "tails [] = []"
| "tails (x # xs) = (x # xs) # tails xs"

text \<open>
  The compound extensions of a file name, longest first: for \<open>a.b.c\<close> they are \<open>.b.c\<close> and
  \<open>.c\<close>, in lower case. A lone dot is not an extension.
\<close>

definition compound_extensions :: "string \<Rightarrow> string list" where
  "compound_extensions name =
     filter (\<lambda>e. 1 < length e)
       (map (\<lambda>ps. CHR ''.'' # js_join CHR ''.'' ps)
          (tails (tl (js_split CHR ''.'' (toLowerCase name)))))"













subsection \<open>A small registry for the checked examples\<close>



definition demo_fileType :: "string \<Rightarrow> string list \<Rightarrow> string option \<Rightarrow> IFileType" where
  "demo_fileType n exts pat =
     \<lparr>ft_name = n, mimeTypes = [], extensions = exts, displayName = None, pattern = pat,
      iconClass = None, iconLabel = None, contentType = ''file'', fileFormat = ''text''\<rparr>"

definition demo_registry :: DocumentRegistry where
  "demo_registry =
     \<lparr>modelFactories = Map.empty, widgetFactories = Map.empty, defaultWidgetFactory = [],
      defaultWidgetFactoryOverrides = Map.empty, defaultWidgetFactories = Map.empty,
      defaultRenderedWidgetFactories = Map.empty, widgetFactoriesForFileType = Map.empty,
      fileTypes =
        [demo_fileType ''json'' [''.json''] None,
         demo_fileType ''docker'' [] (Some ''^Dockerfile$''),
         demo_fileType ''table'' [''.table.json''] None,
         demo_fileType ''json2'' [''.json'', ''.table.json''] (Some ''^Foo.Table.JSON$'')],
      extenders = Map.empty, changed = [], isDisposed = False\<rparr>"


lemma compound_extensions_no_dot: "compound_extensions ''README'' = []"
  by (simp add: compound_extensions_def toLowerCase_def lower_char_def)

lemma compound_extensions_dotfile: "compound_extensions ''.gitignore'' = [''.gitignore'']"
  by (simp add: compound_extensions_def toLowerCase_def lower_char_def)

lemma compound_extensions_trailing_dot: "compound_extensions ''a.b.'' = [''.b.'']"
  by (simp add: compound_extensions_def toLowerCase_def lower_char_def)

subsection \<open>The result of getFileTypesForPath\<close>



section \<open>addWidgetFactory\<close>

text \<open>A thrown \<open>Error\<close>, with its message.\<close>

datatype error = Error string

text \<open>
  The constructor (registry.ts, 65-84) with both options given: it refuses a text model
  factory of another name and starts with every widget factory table empty. The file types
  are the initial ones, already merged with the defaults.
\<close>

definition new_DocumentRegistry :: "ModelFactory \<Rightarrow> IFileType list \<Rightarrow> error + DocumentRegistry" where
  "new_DocumentRegistry factory fts =
     (if mf_name factory \<noteq> ''text'' then Inl (Error ''Text model factory must have the name `text`'')
      else Inr
        \<lparr>modelFactories = [''text'' \<mapsto> factory], widgetFactories = Map.empty,
         defaultWidgetFactory = [], defaultWidgetFactoryOverrides = Map.empty,
         defaultWidgetFactories = Map.empty, defaultRenderedWidgetFactories = Map.empty,
         widgetFactoriesForFileType = Map.empty, fileTypes = fts, extenders = Map.empty,
         changed = [], isDisposed = False\<rparr>)"

text \<open>
  A \<open>DisposableDelegate\<close> holds a callback until it is disposed and runs it at most once.
  The registry makes two callbacks here: \<open>Private.noOp\<close> (registry.ts, 1545) and the closure
  that unregisters the factory called \<open>name\<close> (registry.ts, 176-207).
\<close>

datatype callback = noOp | unregisterWidgetFactory string

type_synonym DisposableDelegate = "callback option"

text \<open>The loop over \<open>factory.defaultFor || []\<close> (registry.ts, 148-157).\<close>

fun add_defaultFor :: "string \<Rightarrow> WidgetFactory \<Rightarrow> string list \<Rightarrow> DocumentRegistry \<Rightarrow> DocumentRegistry" where
  "add_defaultFor name factory [] reg = reg"
| "add_defaultFor name factory (ft # fts) reg =
     add_defaultFor name factory fts
       (if ft \<notin> set (wf_fileTypes factory) then reg
        else if ft = ''*'' then reg\<lparr>defaultWidgetFactory := name\<rparr>
        else reg\<lparr>defaultWidgetFactories := (defaultWidgetFactories reg)(ft \<mapsto> name)\<rparr>)"

text \<open>The loop over \<open>factory.defaultRendered || []\<close> (registry.ts, 158-163).\<close>

fun add_defaultRendered :: "string \<Rightarrow> WidgetFactory \<Rightarrow> string list \<Rightarrow> DocumentRegistry \<Rightarrow> DocumentRegistry" where
  "add_defaultRendered name factory [] reg = reg"
| "add_defaultRendered name factory (ft # fts) reg =
     add_defaultRendered name factory fts
       (if ft \<notin> set (wf_fileTypes factory) then reg
        else reg\<lparr>defaultRenderedWidgetFactories := (defaultRenderedWidgetFactories reg)(ft \<mapsto> name)\<rparr>)"

text \<open>The loop over \<open>factory.fileTypes\<close> (registry.ts, 165-170).\<close>

fun add_forFileType :: "string \<Rightarrow> string list \<Rightarrow> DocumentRegistry \<Rightarrow> DocumentRegistry" where
  "add_forFileType name [] reg = reg"
| "add_forFileType name (ft # fts) reg =
     add_forFileType name fts
       (reg\<lparr>widgetFactoriesForFileType :=
          (widgetFactoriesForFileType reg)
            (ft \<mapsto> (case widgetFactoriesForFileType reg ft of None \<Rightarrow> [] | Some ns \<Rightarrow> ns) @ [name])\<rparr>)"

text \<open>\<open>this._changed.emit(args)\<close>.\<close>

definition emit_changed :: "IChangedArgs \<Rightarrow> DocumentRegistry \<Rightarrow> DocumentRegistry" where
  "emit_changed args reg = reg\<lparr>changed := changed reg @ [args]\<rparr>"

text \<open>\<open>xs || []\<close> for an optional array (an empty array is truthy).\<close>

definition or_empty :: "'a list option \<Rightarrow> 'a list" where
  "or_empty xs = (case xs of None \<Rightarrow> [] | Some ys \<Rightarrow> ys)"

text \<open>
  \<open>DocumentRegistry.addWidgetFactory\<close> (registry.ts, 138-208). The result is the thrown error,
  or the registry afterwards with the disposable returned. The \<open>console.warn\<close> of the
  duplicate branch writes to the console only and is not part of the registry.
\<close>

definition addWidgetFactory ::
  "DocumentRegistry \<Rightarrow> WidgetFactory \<Rightarrow> error + (DocumentRegistry \<times> DisposableDelegate)" where
  "addWidgetFactory reg factory =
     (let name = toLowerCase (wf_name factory) in
      if name = [] \<or> name = ''default'' then Inl (Error ''Invalid factory name'')
      else if widgetFactories reg name \<noteq> None then Inr (reg, Some noOp)
      else
        let reg1 = reg\<lparr>widgetFactories := (widgetFactories reg)(name \<mapsto> factory)\<rparr>;
            reg2 = add_defaultFor name factory (or_empty (defaultFor factory)) reg1;
            reg3 = add_defaultRendered name factory (or_empty (defaultRendered factory)) reg2;
            reg4 = add_forFileType name (wf_fileTypes factory) reg3;
            reg5 = emit_changed
                     \<lparr>ca_type = type_widgetFactory, ca_name = Some name, ca_change = change_added\<rparr> reg4
        in Inr (reg5, Some (unregisterWidgetFactory name)))"

text \<open>
  \<open>for (const ext of Object.keys(m)) if (m[ext] === name) delete m[ext]\<close>
  (registry.ts, 181-190 and 197-201).
\<close>

definition delete_where :: "('k \<rightharpoonup> 'v) \<Rightarrow> 'v \<Rightarrow> ('k \<rightharpoonup> 'v)" where
  "delete_where m v = (\<lambda>k. if m k = Some v then None else m k)"

text \<open>
  The loop over \<open>this._widgetFactoriesForFileType\<close> (registry.ts, 191-196):
  \<open>ArrayExt.removeFirstOf\<close> takes the first occurrence out, and a key whose array is then
  empty is deleted.
\<close>

definition remove_from_lists :: "('k \<rightharpoonup> 'v list) \<Rightarrow> 'v \<Rightarrow> ('k \<rightharpoonup> 'v list)" where
  "remove_from_lists m v =
     (\<lambda>k. case m k of
             None \<Rightarrow> None
           | Some ns \<Rightarrow> (if remove1 v ns = [] then None else Some (remove1 v ns)))"

text \<open>The closure given to the disposable of a registered factory (registry.ts, 176-207).\<close>

definition run_unregisterWidgetFactory :: "string \<Rightarrow> DocumentRegistry \<Rightarrow> DocumentRegistry" where
  "run_unregisterWidgetFactory name reg =
     emit_changed \<lparr>ca_type = type_widgetFactory, ca_name = Some name, ca_change = change_removed\<rparr>
       (reg\<lparr>widgetFactories := (widgetFactories reg)(name := None),
            defaultWidgetFactory := (if defaultWidgetFactory reg = name then [] else defaultWidgetFactory reg),
            defaultWidgetFactories := delete_where (defaultWidgetFactories reg) name,
            defaultRenderedWidgetFactories := delete_where (defaultRenderedWidgetFactories reg) name,
            widgetFactoriesForFileType := remove_from_lists (widgetFactoriesForFileType reg) name,
            defaultWidgetFactoryOverrides := delete_where (defaultWidgetFactoryOverrides reg) name\<rparr>)"

fun run_callback :: "callback \<Rightarrow> DocumentRegistry \<Rightarrow> DocumentRegistry" where
  "run_callback noOp reg = reg"
| "run_callback (unregisterWidgetFactory name) reg = run_unregisterWidgetFactory name reg"

text \<open>\<open>DisposableDelegate.dispose\<close>: run the callback if it is still held, and drop it.\<close>

definition dispose_delegate :: "DisposableDelegate \<Rightarrow> DocumentRegistry \<Rightarrow> DisposableDelegate \<times> DocumentRegistry" where
  "dispose_delegate d reg = (case d of None \<Rightarrow> (None, reg) | Some fn \<Rightarrow> (None, run_callback fn reg))"

text \<open>
  No factory is registered under the empty name or under \<open>default\<close>. The table
  \<open>_widgetFactories\<close> is private and written at two places only, line 147 and line 177, so
  the three lemmas after the definition make this an invariant of the class: it holds after
  the constructor, and \<open>addWidgetFactory\<close> and the disposal of any delegate keep it.
\<close>

definition factory_names_valid :: "DocumentRegistry \<Rightarrow> bool" where
  "factory_names_valid reg \<longleftrightarrow> widgetFactories reg [] = None \<and> widgetFactories reg ''default'' = None"

lemma add_defaultFor_widgetFactories [simp]:
  "widgetFactories (add_defaultFor name factory fts reg) = widgetFactories reg"
  by (induction fts arbitrary: reg) auto

lemma add_defaultRendered_widgetFactories [simp]:
  "widgetFactories (add_defaultRendered name factory fts reg) = widgetFactories reg"
  by (induction fts arbitrary: reg) auto

lemma add_forFileType_widgetFactories [simp]:
  "widgetFactories (add_forFileType name fts reg) = widgetFactories reg"
  by (induction fts arbitrary: reg) auto

lemma new_DocumentRegistry_names_valid:
  "new_DocumentRegistry factory fts = Inr reg \<Longrightarrow> factory_names_valid reg"
  by (auto simp: new_DocumentRegistry_def factory_names_valid_def split: if_splits)

lemma addWidgetFactory_names_valid:
  "factory_names_valid reg \<Longrightarrow> addWidgetFactory reg factory = Inr (reg', d) \<Longrightarrow> factory_names_valid reg'"
  by (auto simp: addWidgetFactory_def factory_names_valid_def Let_def emit_changed_def split: if_splits)

lemma dispose_delegate_names_valid:
  "factory_names_valid reg \<Longrightarrow> dispose_delegate d reg = (d', reg') \<Longrightarrow> factory_names_valid reg'"
  by (cases d; cases "the d")
     (auto simp: dispose_delegate_def factory_names_valid_def run_unregisterWidgetFactory_def emit_changed_def)

subsection \<open>A registry with one factory, for the checked examples\<close>

definition demo_factory :: "string \<Rightarrow> WidgetFactory" where
  "demo_factory n =
     \<lparr>wf_name = n, wf_fileTypes = [''text'', ''*''], defaultFor = Some [''text'', ''csv''],
      defaultRendered = None, readOnly = None, modelName = None, preferKernel = None,
      canStartKernel = None, shutdownOnClose = None\<rparr>"

definition demo_registry_with_editor :: DocumentRegistry where
  "demo_registry_with_editor =
     demo_registry
       \<lparr>widgetFactories := [''editor'' \<mapsto> demo_factory ''Editor''],
        defaultWidgetFactories := [''text'' \<mapsto> ''editor''],
        widgetFactoriesForFileType := [''text'' \<mapsto> [''editor''], ''*'' \<mapsto> [''editor'']],
        changed := [\<lparr>ca_type = type_widgetFactory, ca_name = Some ''editor'', ca_change = change_added\<rparr>]\<rparr>"

lemma toLowerCase_Editor: "toLowerCase ''Editor'' = ''editor''"
  by (simp add: toLowerCase_def lower_char_def)



lemma addWidgetFactory_example:
  "addWidgetFactory demo_registry (demo_factory ''Editor'') =
     Inr (demo_registry_with_editor, Some (unregisterWidgetFactory ''editor''))"
  by (simp add: addWidgetFactory_def demo_factory_def toLowerCase_Editor demo_registry_def
      demo_registry_with_editor_def or_empty_def emit_changed_def Let_def)

subsection \<open>Registering a name twice\<close>



section \<open>The save state of a context\<close>

text \<open>
  \<open>DocumentRegistry.SaveState\<close> (registry.ts, 989-993), the argument type of the \<open>saveState\<close>
  signal of \<open>IContext\<close> (registry.ts, 860): a union of four string literal types.
\<close>

datatype SaveState = started | failed | completed | completed_manual

text \<open>The string each value is written as in the source.\<close>

fun SaveState_literal :: "SaveState \<Rightarrow> string" where
  "SaveState_literal started = ''started''"
| "SaveState_literal failed = ''failed''"
| "SaveState_literal completed = ''completed''"
| "SaveState_literal completed_manual = ''completed-manual''"

text \<open>The members of the union, in the order of the source.\<close>

definition SaveStates :: "SaveState list" where
  "SaveStates = [started, failed, completed, completed_manual]"

text \<open>Whether a string is assignable to the type.\<close>

definition is_SaveState :: "string \<Rightarrow> bool" where
  "is_SaveState s \<longleftrightarrow> s \<in> set (map SaveState_literal SaveStates)"

lemma SaveStates_all: "set SaveStates = UNIV"
proof -
  have "\<And>x. x \<in> set SaveStates"
  proof -
    fix x show "x \<in> set SaveStates" by (cases x) (simp_all add: SaveStates_def)
  qed
  then show ?thesis by auto
qed

text \<open>
  Claim C1, as amended. The \<open>saveState\<close> notification ranges over exactly four values,
  \<open>started\<close>, \<open>failed\<close>, \<open>completed\<close> and \<open>completed-manual\<close>: the list holds every value of
  the type, the four are written differently, and a string is a value of the type exactly
  when it is one of these four.
\<close>

theorem SaveState_four_values:
  "set SaveStates = UNIV \<and>
   length SaveStates = 4 \<and>
   distinct (map SaveState_literal SaveStates) \<and>
   (is_SaveState s \<longleftrightarrow>
      s = ''started'' \<or> s = ''failed'' \<or> s = ''completed'' \<or> s = ''completed-manual'')"
  using SaveStates_all by (auto simp: is_SaveState_def SaveStates_def)

text \<open>
  Claim C1 as stated counts \<open>idle\<close> as a fifth value that the notification can carry. The
  type has no such member.
\<close>

theorem SaveState_idle_counterexample: "\<not> is_SaveState ''idle''"
  by (simp add: is_SaveState_def SaveStates_def)

section \<open>The document context: line endings on revert and on save\<close>

text \<open>
  The \<open>Context\<close> class, the text model and the contents service it talks to are not among
  the sources; of the context only its test suite is (registry.ts, 1577-2083). This section
  models the part of \<open>revert\<close> and \<open>save\<close> that decides which content is loaded and which is
  written, from the words of the specification, and runs the tests of the suite that read a
  file back. The notifications, the readiness flag and the remote metadata take no part in
  what is loaded or written and are left out.
\<close>

text \<open>
  Modelled from the spec: the carriage return of the CRLF sequence of section 4.1 (revert),
  which \<open>Context.revert\<close> (context.ts is missing) looks for.
\<close>

definition CR :: char where "CR = CHR 0x0D"

text \<open>
  Modelled from the spec: the line feed, LF, of section 4.1 (revert), which the missing
  \<open>Context.revert\<close> puts in the place of CRLF.
\<close>

definition LF :: char where "LF = CHR 0x0A"

text \<open>
  Modelled from the spec: the normalization of \<open>Context.revert\<close> (context.ts is missing),
  section 4.1: "converting all CRLF sequences to LF". The content is read from left to
  right and each CR that is followed by LF is dropped.
\<close>

fun normalize_crlf :: "string \<Rightarrow> string" where
  "normalize_crlf [] = []"
| "normalize_crlf [c] = [c]"
| "normalize_crlf (c # d # cs) =
     (if c = CR \<and> d = LF then LF # normalize_crlf cs else c # normalize_crlf (d # cs))"

text \<open>
  Modelled from the spec: whether the content fetched by \<open>Context.revert\<close> (context.ts is
  missing) has a CRLF sequence; section 4.1 (revert) lets the storage hold either
  convention. It decides the line ending recorded for the next save.
\<close>

fun contains_crlf :: "string \<Rightarrow> bool" where
  "contains_crlf [] = False"
| "contains_crlf [c] = False"
| "contains_crlf (c # d # cs) = ((c = CR \<and> d = LF) \<or> contains_crlf (d # cs))"

text \<open>
  Modelled from the spec: the content \<open>Context.save\<close> (missing) hands to the storage gateway.
  Section 4.1 says it is the serialized model, byte for byte. The test "should should
  preserve CRLF line endings upon save" (registry.ts, 1885-1901) reads back CRLF after the
  model was loaded from CRLF content, while the test "should normalize CRLF line endings to
  LF" (registry.ts, 1997-2006) finds LF in the model; so with a recorded line ending each LF
  of the serialized model is written as that line ending, and with none the serialized model
  is written as it is.
\<close>

definition with_line_ending :: "string option \<Rightarrow> string \<Rightarrow> string" where
  "with_line_ending ending s =
     (case ending of
        None \<Rightarrow> s
      | Some e \<Rightarrow> concat (map (\<lambda>c. if c = LF then e else [c]) s))"

text \<open>
  Modelled from the spec: the failures of section 7 that these operations meet (not found
  and forbidden from the storage gateway, and the disposed-state error of section 4.1).
\<close>

datatype failure = not_found | forbidden | disposed

text \<open>
  Modelled from the spec: the Storage Gateway of section 6 (the contents service, which is
  missing), as far as \<open>get\<close> and \<open>save\<close> go: the content stored under each path, and the paths
  that refuse a write.
\<close>

record Contents =
  files :: "string \<rightharpoonup> string"
  read_only :: "string list"

text \<open>Modelled from the spec: \<open>get(path)\<close> of the Storage Gateway (section 6), which is missing.\<close>

definition contents_get :: "Contents \<Rightarrow> string \<Rightarrow> failure + string" where
  "contents_get st p = (case files st p of None \<Rightarrow> Inl not_found | Some content \<Rightarrow> Inr content)"

text \<open>
  Modelled from the spec: \<open>save(path, content)\<close> of the Storage Gateway (section 6), which is
  missing; a forbidden path answers as the 403 of section 7.
\<close>

definition contents_save :: "Contents \<Rightarrow> string \<Rightarrow> string \<Rightarrow> failure + Contents" where
  "contents_save st p content =
     (if p \<in> set (read_only st) then Inl forbidden
      else Inr (st\<lparr>files := (files st)(p \<mapsto> content)\<rparr>))"

text \<open>
  Modelled from the spec: the \<open>Context\<close> of section 3 (context.ts is missing), with the
  fields that decide the content: the path, the serialized content of the model it owns
  (\<open>model.toString()\<close>), and the disposed flag. \<open>lineEnding\<close> is not a field of the
  specification: it is the line ending the tests at registry.ts, 1867-1901 require the
  context to remember between a revert and the next save.
\<close>

record Context =
  path :: string
  model_value :: string
  lineEnding :: "string option"
  ctx_isDisposed :: bool

text \<open>
  Modelled from the spec: a newly constructed \<open>Context\<close> bound to a path (section 2); its
  model is empty, as the test at registry.ts, 1774-1778 finds it.
\<close>

definition new_Context :: "string \<Rightarrow> Context" where
  "new_Context p = \<lparr>path = p, model_value = [], lineEnding = None, ctx_isDisposed = False\<rparr>"

text \<open>
  Modelled from the spec: \<open>fromString\<close> of the Model (section 2), which is missing: the
  deserializer of a text model, whose \<open>toString\<close> gives back what it was handed.
\<close>

definition model_fromString :: "string \<Rightarrow> Context \<Rightarrow> Context" where
  "model_fromString v ctx = ctx\<lparr>model_value := v\<rparr>"

text \<open>
  Modelled from the spec: \<open>Context.save\<close> (context.ts is missing), section 4.1. A disposed
  context fails at once. \<open>vetoed\<close> says that the gateway reported a conflict and the
  Conflict Policy vetoed the save: it is then abandoned, nothing is written and no error is
  raised. Otherwise the content is written at the current path, and a refusal of the gateway
  is the failure of the save. The \<open>manual\<close> flag only chooses the notification and is left
  out with it.
\<close>

definition save :: "bool \<Rightarrow> Context \<times> Contents \<Rightarrow> (failure + unit) \<times> Context \<times> Contents" where
  "save vetoed w =
     (case w of (ctx, st) \<Rightarrow>
        if ctx_isDisposed ctx then (Inl disposed, ctx, st)
        else if vetoed then (Inr (), ctx, st)
        else
          (case contents_save st (path ctx) (with_line_ending (lineEnding ctx) (model_value ctx)) of
             Inl e \<Rightarrow> (Inl e, ctx, st)
           | Inr st' \<Rightarrow> (Inr (), ctx, st')))"

text \<open>
  Modelled from the spec: \<open>Context.revert\<close> (context.ts is missing), section 4.1: fetch the
  remote content, normalize CRLF to LF and hand the result to the deserializer of the model.
  A disposed context fails at once (section 3), and a failure of the fetch is the failure of
  the revert. The line ending is recorded for the next save, as the tests at registry.ts,
  1867-1901 require.
\<close>

definition revert :: "Context \<times> Contents \<Rightarrow> (failure + unit) \<times> Context \<times> Contents" where
  "revert w =
     (case w of (ctx, st) \<Rightarrow>
        if ctx_isDisposed ctx then (Inl disposed, ctx, st)
        else
          (case contents_get st (path ctx) of
             Inl e \<Rightarrow> (Inl e, ctx, st)
           | Inr content \<Rightarrow>
               (Inr (),
                (model_fromString (normalize_crlf content) ctx)
                  \<lparr>lineEnding := (if contains_crlf content then Some [CR, LF] else None)\<rparr>,
                st)))"

text \<open>
  Modelled from the spec: \<open>Context.initialize(true)\<close> (context.ts is missing), section 4.1:
  the content of the model is authoritative and an initial save is performed. No document
  provider is configured, as in the test suite.
\<close>

definition initialize_new :: "Context \<times> Contents \<Rightarrow> (failure + unit) \<times> Context \<times> Contents" where
  "initialize_new w = save False w"

subsection \<open>The tests that read a file back\<close>

text \<open>
  \<open>await manager.contents.save(context.path, {..., content})\<close>, the direct write to the
  storage that the tests make behind the back of the context.
\<close>

definition manager_contents_save ::
  "string \<Rightarrow> string \<Rightarrow> Context \<times> Contents \<Rightarrow> (failure + unit) \<times> Context \<times> Contents" where
  "manager_contents_save p content w =
     (case w of (ctx, st) \<Rightarrow>
        (case contents_save st p content of
           Inl e \<Rightarrow> (Inl e, ctx, st)
         | Inr st' \<Rightarrow> (Inr (), ctx, st')))"

text \<open>One \<open>await\<close> after another: a rejected step ends the test.\<close>

definition and_then ::
  "(failure + unit) \<times> Context \<times> Contents \<Rightarrow>
   (Context \<times> Contents \<Rightarrow> (failure + unit) \<times> Context \<times> Contents) \<Rightarrow>
   (failure + unit) \<times> Context \<times> Contents" where
  "and_then r f = (case r of (Inl e, w) \<Rightarrow> (Inl e, w) | (Inr u, w) \<Rightarrow> f w)"

text \<open>
  The storage the mocked service manager of the suite starts with: no file of the test yet,
  and \<open>readonly.txt\<close> refusing writes (registry.ts, 1680-1700).
\<close>

definition no_files :: Contents where
  "no_files = \<lparr>files = Map.empty, read_only = [''readonly.txt'']\<rparr>"

text \<open>
  The steps of "should should preserve LF line endings upon save" and "should should
  preserve CRLF line endings upon save" (registry.ts, 1867-1901), which differ in the content
  only: initialize a new context, write the content to the storage directly, revert, save.
  The tests then read the file at the path of the context.
\<close>

definition revert_then_save_test :: "string \<Rightarrow> string \<Rightarrow> (failure + unit) \<times> Context \<times> Contents" where
  "revert_then_save_test p content =
     and_then (and_then (and_then (initialize_new (new_Context p, no_files))
       (manager_contents_save p content)) revert) (save False)"

text \<open>
  The steps of "should normalize CRLF line endings to LF" (registry.ts, 1997-2006):
  initialize a new context, write the content to the storage directly, revert. The test then
  reads \<open>context.model.toString()\<close>.
\<close>

definition revert_test :: "string \<Rightarrow> string \<Rightarrow> (failure + unit) \<times> Context \<times> Contents" where
  "revert_test p content =
     and_then (and_then (initialize_new (new_Context p, no_files))
       (manager_contents_save p content)) revert"

text \<open>The state the CRLF test is in after its revert.\<close>

definition crlf_context :: Context where
  "crlf_context =
     \<lparr>path = ''doc.txt'', model_value = ''foo'' @ [LF] @ ''bar'', lineEnding = Some [CR, LF],
      ctx_isDisposed = False\<rparr>"

definition crlf_contents :: Contents where
  "crlf_contents =
     \<lparr>files = [''doc.txt'' \<mapsto> ''foo'' @ [CR, LF] @ ''bar''], read_only = [''readonly.txt'']\<rparr>"

text \<open>Lines joined by a line ending.\<close>

fun join_lines :: "string \<Rightarrow> string list \<Rightarrow> string" where
  "join_lines sep [] = []"
| "join_lines sep [l] = l"
| "join_lines sep (l # m # ls) = l @ sep @ join_lines sep (m # ls)"

lemmas context_run_defs = revert_then_save_test_def revert_test_def and_then_def initialize_new_def
  save_def revert_def model_fromString_def manager_contents_save_def contents_save_def contents_get_def new_Context_def
  no_files_def with_line_ending_def

text \<open>The three tests pass on the model.\<close>

lemma save_preserves_LF_test:
  "fst (revert_then_save_test ''doc.txt'' (''foo'' @ [LF] @ ''bar'')) = Inr () \<and>
   files (snd (snd (revert_then_save_test ''doc.txt'' (''foo'' @ [LF] @ ''bar'')))) ''doc.txt'' =
     Some (''foo'' @ [LF] @ ''bar'')"
  by (simp add: context_run_defs CR_def LF_def)

lemma save_preserves_CRLF_test:
  "fst (revert_then_save_test ''doc.txt'' (''foo'' @ [CR, LF] @ ''bar'')) = Inr () \<and>
   files (snd (snd (revert_then_save_test ''doc.txt'' (''foo'' @ [CR, LF] @ ''bar'')))) ''doc.txt'' =
     Some (''foo'' @ [CR, LF] @ ''bar'')"
  by (simp add: context_run_defs CR_def LF_def)

lemma revert_normalizes_CRLF_test:
  "fst (revert_test ''doc.txt'' (''foo'' @ [CR, LF] @ ''bar'')) = Inr () \<and>
   model_value (fst (snd (revert_test ''doc.txt'' (''foo'' @ [CR, LF] @ ''bar'')))) =
     ''foo'' @ [LF] @ ''bar''"
  by (simp add: context_run_defs CR_def LF_def)

subsection \<open>Normalizing and restoring line endings, line by line\<close>

lemma normalize_crlf_other: "c \<noteq> CR \<Longrightarrow> normalize_crlf (c # s) = c # normalize_crlf s"
  by (cases s) auto

lemma normalize_crlf_no_CR: "CR \<notin> set l \<Longrightarrow> normalize_crlf l = l"
  by (induction l) (auto simp: normalize_crlf_other)

lemma normalize_crlf_line:
  "CR \<notin> set l \<Longrightarrow> normalize_crlf (l @ CR # LF # rest) = l @ LF # normalize_crlf rest"
  by (induction l) (auto simp: normalize_crlf_other)

lemma normalize_crlf_lines:
  "\<forall>l\<in>set ls. CR \<notin> set l \<Longrightarrow> normalize_crlf (join_lines [CR, LF] ls) = join_lines [LF] ls"
  by (induction "[CR, LF]" ls rule: join_lines.induct)
     (auto simp: normalize_crlf_no_CR normalize_crlf_line)

lemma with_line_ending_append:
  "with_line_ending (Some e) (a @ b) = with_line_ending (Some e) a @ with_line_ending (Some e) b"
  by (simp add: with_line_ending_def)

lemma with_line_ending_no_LF: "LF \<notin> set l \<Longrightarrow> with_line_ending (Some e) l = l"
  by (induction l) (auto simp: with_line_ending_def)

lemma with_line_ending_lines:
  "\<forall>l\<in>set ls. LF \<notin> set l \<Longrightarrow> with_line_ending (Some e) (join_lines [LF] ls) = join_lines e ls"
proof (induction "[LF]" ls rule: join_lines.induct)
  case 1 show ?case by (simp add: with_line_ending_def)
next
  case (2 l) then show ?case by (simp add: with_line_ending_no_LF)
next
  case (3 l m ls)
  have "with_line_ending (Some e) ([LF] @ join_lines [LF] (m # ls)) =
        e @ with_line_ending (Some e) (join_lines [LF] (m # ls))"
    unfolding with_line_ending_append by (simp add: with_line_ending_def)
  with 3 show ?case by (simp add: with_line_ending_append with_line_ending_no_LF)
qed

lemma contains_crlf_append: "contains_crlf (a @ CR # LF # b)"
proof (induction a)
  case Nil show ?case by simp
next
  case (Cons c a) then show ?case by (cases a) auto
qed

lemma contains_crlf_lines: "2 \<le> length ls \<Longrightarrow> contains_crlf (join_lines [CR, LF] ls)"
proof -
  assume "2 \<le> length ls"
  then obtain l m ms where "ls = l # m # ms" by (cases ls; cases "tl ls") auto
  then show ?thesis using contains_crlf_append[of l "join_lines [CR, LF] (m # ms)"] by simp
qed

text \<open>
  What the CRLF test checks at one content holds for every text of two or more lines that
  have no CR or LF inside: loaded from its CRLF form and saved again, the file is what it
  was, while the model holds the LF form.
\<close>

lemma revert_then_save_preserves_CRLF:
  assumes "2 \<le> length ls" and "\<forall>l\<in>set ls. CR \<notin> set l \<and> LF \<notin> set l"
    and "\<not> ctx_isDisposed ctx" and "path ctx \<notin> set (read_only st)"
    and "files st (path ctx) = Some (join_lines [CR, LF] ls)"
  shows "\<exists>ctx' st'. and_then (revert (ctx, st)) (save False) = (Inr (), ctx', st') \<and>
           model_value ctx' = join_lines [LF] ls \<and>
           files st' (path ctx) = Some (join_lines [CR, LF] ls)"
proof -
  from assms(2) have cr: "\<forall>l\<in>set ls. CR \<notin> set l" and lf: "\<forall>l\<in>set ls. LF \<notin> set l" by auto
  show ?thesis
    using assms(3-5)
    by (simp add: and_then_def revert_def model_fromString_def save_def contents_get_def contents_save_def
        contains_crlf_lines[OF assms(1)] normalize_crlf_lines[OF cr] with_line_ending_lines[OF lf])
qed

subsection \<open>What save writes\<close>




subsection \<open>What revert loads\<close>

text \<open>
  Claim C3. After every successful revert the content of the model is the remote content
  with each CRLF sequence replaced by LF. So when a string \<open>s\<close> has been saved to the storage
  at the path of a context that is not disposed, the revert succeeds and the serialized
  model afterwards is \<open>s\<close> normalized; and after a successful save of the context itself,
  the revert succeeds and the serialized model is the content that save stored, normalized.
  On lines that have no CR inside, normalizing turns the lines joined by CRLF into the same
  lines joined by LF.
\<close>

theorem revert_normalizes_crlf:
  "(revert (ctx, st) = (Inr (), ctx', st') \<longrightarrow>
      (\<exists>content. files st (path ctx) = Some content \<and> model_value ctx' = normalize_crlf content)) \<and>
   (\<not> ctx_isDisposed ctx \<and> contents_save st (path ctx) s = Inr st1 \<longrightarrow>
      fst (revert (ctx, st1)) = Inr () \<and>
      model_value (fst (snd (revert (ctx, st1)))) = normalize_crlf s) \<and>
   (save False (ctx, st) = (Inr (), ctx', st') \<longrightarrow>
      (\<exists>stored. files st' (path ctx) = Some stored \<and>
         fst (revert (ctx', st')) = Inr () \<and>
         model_value (fst (snd (revert (ctx', st')))) = normalize_crlf stored)) \<and>
   ((\<forall>l\<in>set ls. CR \<notin> set l) \<longrightarrow>
      normalize_crlf (join_lines [CR, LF] ls) = join_lines [LF] ls)"
proof (intro conjI impI)
  assume "revert (ctx, st) = (Inr (), ctx', st')"
  then show "\<exists>content. files st (path ctx) = Some content \<and> model_value ctx' = normalize_crlf content"
    by (auto simp: revert_def model_fromString_def contents_get_def split: if_splits sum.splits option.splits)
next
  assume a: "\<not> ctx_isDisposed ctx \<and> contents_save st (path ctx) s = Inr st1"
  then have f: "files st1 (path ctx) = Some s"
    by (auto simp: contents_save_def split: if_splits)
  with a show "fst (revert (ctx, st1)) = Inr ()"
    by (simp add: revert_def model_fromString_def contents_get_def)
  from a f show "model_value (fst (snd (revert (ctx, st1)))) = normalize_crlf s"
    by (simp add: revert_def model_fromString_def contents_get_def)
next
  assume a: "save False (ctx, st) = (Inr (), ctx', st')"
  then have c: "ctx' = ctx" and d: "\<not> ctx_isDisposed ctx"
    and f: "files st' (path ctx) = Some (with_line_ending (lineEnding ctx) (model_value ctx))"
    by (auto simp: save_def contents_save_def split: if_splits sum.splits)
  show "\<exists>stored. files st' (path ctx) = Some stored \<and>
         fst (revert (ctx', st')) = Inr () \<and>
         model_value (fst (snd (revert (ctx', st')))) = normalize_crlf stored"
    using c d f by (simp add: revert_def model_fromString_def contents_get_def)
next
  assume "\<forall>l\<in>set ls. CR \<notin> set l"
  then show "normalize_crlf (join_lines [CR, LF] ls) = join_lines [LF] ls"
    by (rule normalize_crlf_lines)
qed

theorem revert_normalizes_crlf_witness:
  "revert (new_Context ''doc.txt'', crlf_contents) = (Inr (), crlf_context, crlf_contents) \<and>
   model_value crlf_context = normalize_crlf (''foo'' @ [CR, LF] @ ''bar'') \<and>
   \<not> ctx_isDisposed (new_Context ''doc.txt'') \<and>
   contents_save no_files (path (new_Context ''doc.txt'')) (''foo'' @ [CR, LF] @ ''bar'') =
     Inr crlf_contents \<and>
   model_value (fst (snd (revert (new_Context ''doc.txt'', crlf_contents)))) =
     ''foo'' @ [LF] @ ''bar'' \<and>
   save False (crlf_context, crlf_contents) = (Inr (), crlf_context, crlf_contents) \<and>
   model_value (fst (snd (revert (crlf_context, crlf_contents)))) = ''foo'' @ [LF] @ ''bar'' \<and>
   normalize_crlf (join_lines [CR, LF] [''foo'', ''bar'']) = join_lines [LF] [''foo'', ''bar'']"
proof -
  have r: "revert (new_Context ''doc.txt'', crlf_contents) = (Inr (), crlf_context, crlf_contents)"
    by (simp add: revert_def model_fromString_def contents_get_def crlf_context_def crlf_contents_def new_Context_def
        CR_def LF_def)
  have d: "\<not> ctx_isDisposed (new_Context ''doc.txt'')" by (simp add: new_Context_def)
  have c: "contents_save no_files (path (new_Context ''doc.txt'')) (''foo'' @ [CR, LF] @ ''bar'') =
           Inr crlf_contents"
    by (simp add: contents_save_def no_files_def new_Context_def crlf_contents_def)
  have s: "save False (crlf_context, crlf_contents) = (Inr (), crlf_context, crlf_contents)"
    by (simp add: save_def contents_save_def crlf_context_def crlf_contents_def
        with_line_ending_def CR_def LF_def)
  have n: "normalize_crlf (''foo'' @ [CR, LF] @ ''bar'') = ''foo'' @ [LF] @ ''bar''"
    by (simp add: CR_def LF_def)
  have p: "files crlf_contents (path crlf_context) = Some (''foo'' @ [CR, LF] @ ''bar'')"
    by (simp add: crlf_contents_def crlf_context_def)
  have l: "\<forall>l\<in>set [''foo'', ''bar'']. CR \<notin> set l" by (simp add: CR_def)
  note t = revert_normalizes_crlf[where ctx = "new_Context ''doc.txt''" and st = crlf_contents
      and ctx' = crlf_context and st' = crlf_contents and ls = "[''foo'', ''bar'']"]
  note u = revert_normalizes_crlf[where ctx = "new_Context ''doc.txt''" and st = no_files
      and s = "''foo'' @ [CR, LF] @ ''bar''" and ?st1.0 = crlf_contents]
  note v = revert_normalizes_crlf[where ctx = crlf_context and st = crlf_contents
      and ctx' = crlf_context and st' = crlf_contents]
  from t r have m: "model_value crlf_context = normalize_crlf (''foo'' @ [CR, LF] @ ''bar'')"
    by (auto simp: crlf_contents_def new_Context_def)
  from u d c n have a: "model_value (fst (snd (revert (new_Context ''doc.txt'', crlf_contents)))) =
      ''foo'' @ [LF] @ ''bar''"
    by simp
  from v s p n have b: "model_value (fst (snd (revert (crlf_context, crlf_contents)))) =
      ''foo'' @ [LF] @ ''bar''"
    by auto
  from t l have j: "normalize_crlf (join_lines [CR, LF] [''foo'', ''bar'']) =
      join_lines [LF] [''foo'', ''bar'']"
    by blast
  show ?thesis using r m d c a s b j by simp
qed

end
